theory Spec2Isabelle
  imports Complex_Main
begin

section \<open>Numeric values of \<^verbatim>\<open>support.py\<close>\<close>

text \<open>
  The optimizers of \<^verbatim>\<open>src/01-main/support.py\<close> compute with numpy values. A value is
  modelled as a \<open>tensor\<close>: a numpy scalar (\<open>Scalar\<close>) or a one-dimensional array
  (\<open>Arr\<close>). Elements are real numbers: the arithmetic is the exact one that the IEEE
  doubles of numpy approximate, so rounding and overflow are outside this development.
  Statements that a float64 result is finite, or that two float64 results differ by an
  exact amount, are therefore not expressed here: only which expression the code
  computes, which exception it raises and which attributes it assigns.
  numpy does not raise on a division by zero or on the square root of a negative number
  (it yields \<^verbatim>\<open>inf\<close> or \<^verbatim>\<open>nan\<close>); the model has the value that HOL gives the same
  expression there, and where a statement is about a quotient being defined it says that
  the divisor is positive.
  Hyperparameters are Python floats (\<open>real\<close>), the regularization order \<open>lp\<close> and Adam's
  counter \<open>t\<close> are Python integers (\<open>int\<close>). An argument that may be \<^verbatim>\<open>None\<close> (the default of
  \<^verbatim>\<open>theta_m1\<close> in \<^verbatim>\<open>PlainGD.update_change\<close>) is a \<open>tensor option\<close>.

  The exceptions that the code can raise are values of \<open>error\<close>. The specification calls
  \<^verbatim>\<open>NotImplementedError\<close> "UnsupportedRegularizationOrder"; numpy reports operands that
  cannot be broadcast together with \<^verbatim>\<open>ValueError\<close>.
\<close>

datatype error =
  NotImplementedError | TypeError | ValueError | RuntimeError | ZeroDivisionError
  | OverflowError | IndexError

datatype tensor = Scalar real | Arr "real list"

text \<open>An elementwise function, and a Python float combined with a tensor: never fails.\<close>

fun tmap :: "(real \<Rightarrow> real) \<Rightarrow> tensor \<Rightarrow> tensor" where
  "tmap f (Scalar a) = Scalar (f a)"
| "tmap f (Arr xs) = Arr (map f xs)"

text \<open>
  A binary operator on two numpy values, with numpy's broadcasting for scalars and
  one-dimensional arrays: equal lengths combine elementwise, a length of one is stretched,
  anything else raises \<^verbatim>\<open>ValueError\<close>.
\<close>

fun broadcast :: "(real \<Rightarrow> real \<Rightarrow> real) \<Rightarrow> tensor \<Rightarrow> tensor \<Rightarrow> error + tensor" where
  "broadcast f (Scalar a) (Scalar b) = Inr (Scalar (f a b))"
| "broadcast f (Scalar a) (Arr ys) = Inr (Arr (map (f a) ys))"
| "broadcast f (Arr xs) (Scalar b) = Inr (Arr (map (\<lambda>x. f x b) xs))"
| "broadcast f (Arr xs) (Arr ys) =
     (if length xs = length ys then Inr (Arr (map2 f xs ys))
      else if length xs = 1 then Inr (Arr (map (f (hd xs)) ys))
      else if length ys = 1 then Inr (Arr (map (\<lambda>x. f x (hd ys)) xs))
      else Inl ValueError)"

text \<open>Sequencing of computations that may raise: the first exception wins.\<close>

fun and_then :: "error + 'a \<Rightarrow> ('a \<Rightarrow> error + 'b) \<Rightarrow> error + 'b" where
  "and_then (Inl e) f = Inl e"
| "and_then (Inr x) f = f x"

text \<open>Arithmetic on \<^verbatim>\<open>None\<close> raises \<^verbatim>\<open>TypeError\<close>.\<close>

fun numeric :: "tensor option \<Rightarrow> error + tensor" where
  "numeric None = Inl TypeError"
| "numeric (Some v) = Inr v"

text \<open>
  \<^verbatim>\<open>x ** t\<close> for a Python float \<open>x\<close> and a Python integer \<open>t\<close>. Zero cannot be raised to
  a negative power (\<^verbatim>\<open>ZeroDivisionError\<close>), and a power that leaves the range of a double
  raises \<^verbatim>\<open>OverflowError\<close>: that is a power of magnitude \<open>2^1024 - 2^970\<close> or more, the
  least magnitude that rounds to infinity. A power that underflows is returned (as 0.0 in
  Python), no exception is raised.
\<close>

definition double_overflow :: real where
  "double_overflow = 2 ^ 1024 - 2 ^ 970"

definition py_pow :: "real \<Rightarrow> int \<Rightarrow> error + real" where
  "py_pow x n =
     (if 0 \<le> n then
        (if double_overflow \<le> \<bar>x ^ nat n\<bar> then Inl OverflowError else Inr (x ^ nat n))
      else if x = 0 then Inl ZeroDivisionError
      else if double_overflow \<le> \<bar>1 / x ^ nat (- n)\<bar> then Inl OverflowError
      else Inr (1 / x ^ nat (- n)))"

section \<open>Gradient descent methods\<close>

subsection \<open>\<^verbatim>\<open>GDTemplate\<close>\<close>

record GDTemplate =
  eta :: real

definition GDTemplate_init :: "real \<Rightarrow> GDTemplate" where
  "GDTemplate_init learning_rate = \<lparr>eta = learning_rate\<rparr>"

definition GDTemplate_update_change :: "GDTemplate \<Rightarrow> tensor \<Rightarrow> tensor option \<Rightarrow> error + tensor" where
  "GDTemplate_update_change self gradient theta_m1 = Inl RuntimeError"

definition GDTemplate_reset :: "'a GDTemplate_scheme \<Rightarrow> 'a GDTemplate_scheme" where
  "GDTemplate_reset self = self"

subsection \<open>\<^verbatim>\<open>PlainGD\<close>\<close>

text \<open>
  \<^verbatim>\<open>PlainGD.update_change\<close> and \<^verbatim>\<open>MomentumGD.update_change\<close> assign no attribute of
  \<^verbatim>\<open>self\<close>, so their models return the result only.
\<close>

record PlainGD = GDTemplate +
  lmbda :: real
  lp :: int

definition PlainGD_init :: "real \<Rightarrow> real \<Rightarrow> int \<Rightarrow> PlainGD" where
  "PlainGD_init learning_rate lmbda0 lp0 =
     \<lparr>eta = learning_rate, PlainGD.lmbda = lmbda0, PlainGD.lp = lp0\<rparr>"

definition PlainGD_update_change :: "PlainGD \<Rightarrow> tensor \<Rightarrow> tensor option \<Rightarrow> error + tensor" where
  "PlainGD_update_change self gradient theta_m1 =
     (if PlainGD.lp self = 0 then
        Inr (tmap (\<lambda>x. eta self * x) gradient)
      else if PlainGD.lp self = 1 then
        and_then (numeric theta_m1) (\<lambda>th.
          broadcast (+) (tmap (\<lambda>x. eta self * x) gradient)
                        (tmap (\<lambda>y. PlainGD.lmbda self * y) (tmap sgn th)))
      else if PlainGD.lp self = 2 then
        and_then (numeric theta_m1) (\<lambda>th.
          broadcast (+) (tmap (\<lambda>x. eta self * x) gradient)
                        (tmap (\<lambda>y. PlainGD.lmbda self * y) th))
      else Inl NotImplementedError)"

definition PlainGD_reset :: "PlainGD \<Rightarrow> PlainGD" where
  "PlainGD_reset self = GDTemplate_reset self"

subsection \<open>\<^verbatim>\<open>MomentumGD\<close>\<close>

record MomentumGD = GDTemplate +
  mom :: real
  lmbda :: real
  lp :: int

definition MomentumGD_init :: "real \<Rightarrow> real \<Rightarrow> real \<Rightarrow> int \<Rightarrow> MomentumGD" where
  "MomentumGD_init learning_rate momentum lmbda0 lp0 =
     \<lparr>eta = learning_rate, MomentumGD.mom = momentum,
      MomentumGD.lmbda = lmbda0, MomentumGD.lp = lp0\<rparr>"

definition MomentumGD_update_change :: "MomentumGD \<Rightarrow> tensor \<Rightarrow> tensor option \<Rightarrow> error + tensor" where
  "MomentumGD_update_change self gradient theta_m1 =
     (if MomentumGD.lp self = 0 then
        and_then (numeric theta_m1) (\<lambda>th.
          broadcast (+) (tmap (\<lambda>x. eta self * x) gradient)
                        (tmap (\<lambda>y. MomentumGD.mom self * y) th))
      else if MomentumGD.lp self = 1 then
        and_then (numeric theta_m1) (\<lambda>th.
        and_then (broadcast (+) (tmap (\<lambda>x. eta self * x) gradient)
                                (tmap (\<lambda>y. MomentumGD.mom self * y) th)) (\<lambda>a.
          broadcast (+) a (tmap (\<lambda>y. MomentumGD.lmbda self * y) (tmap sgn th))))
      else if MomentumGD.lp self = 2 then
        and_then (numeric theta_m1) (\<lambda>th.
        and_then (broadcast (+) (tmap (\<lambda>x. eta self * x) gradient)
                                (tmap (\<lambda>y. MomentumGD.mom self * y) th)) (\<lambda>a.
          broadcast (+) a (tmap (\<lambda>y. MomentumGD.lmbda self * y) th)))
      else Inl NotImplementedError)"

definition MomentumGD_reset :: "MomentumGD \<Rightarrow> MomentumGD" where
  "MomentumGD_reset self = GDTemplate_reset self"

subsection \<open>\<^verbatim>\<open>Adagrad\<close>\<close>

text \<open>
  \<^verbatim>\<open>Adagrad.update_change\<close> assigns \<^verbatim>\<open>self.adagrad_learn_rate\<close> before it looks at
  \<^verbatim>\<open>self.lp\<close>, so the model returns the instance together with the result or exception.
\<close>

record Adagrad = GDTemplate +
  mom :: real
  adagrad_learn_rate :: "tensor option"
  lmbda :: real
  lp :: int

definition Adagrad_init :: "real \<Rightarrow> real \<Rightarrow> real \<Rightarrow> int \<Rightarrow> Adagrad" where
  "Adagrad_init learning_rate momentum lmbda0 lp0 =
     \<lparr>eta = learning_rate, Adagrad.mom = momentum, adagrad_learn_rate = None,
      Adagrad.lmbda = lmbda0, Adagrad.lp = lp0\<rparr>"

text \<open>One element of the divisor \<^verbatim>\<open>delta + anp.sqrt(gradient2)\<close>, for one element of
  \<^verbatim>\<open>gradient2\<close>.\<close>

definition adagrad_divisor :: "real \<Rightarrow> real" where
  "adagrad_divisor g2 = 1 / 10 ^ 7 + sqrt g2"

definition Adagrad_update_change ::
  "Adagrad \<Rightarrow> tensor \<Rightarrow> tensor option \<Rightarrow> (error + tensor) \<times> Adagrad" where
  "Adagrad_update_change self gradient theta_m1 =
     (case broadcast (*) gradient gradient of
        Inl e \<Rightarrow> (Inl e, self)
      | Inr gradient2 \<Rightarrow>
          (let rate = tmap (\<lambda>d. eta self / d) (tmap adagrad_divisor gradient2);
               self' = self\<lparr>adagrad_learn_rate := Some rate\<rparr>
           in
             (if Adagrad.lp self = 0 then
                and_then (broadcast (*) gradient rate) (\<lambda>a.
                and_then (numeric theta_m1) (\<lambda>th.
                  broadcast (+) a (tmap (\<lambda>y. Adagrad.mom self * y) th)))
              else if Adagrad.lp self = 1 then
                and_then (broadcast (*) gradient rate) (\<lambda>a.
                and_then (numeric theta_m1) (\<lambda>th.
                and_then (broadcast (+) a (tmap (\<lambda>y. Adagrad.mom self * y) th)) (\<lambda>b.
                  broadcast (+) b (tmap (\<lambda>y. Adagrad.lmbda self * y) (tmap sgn th)))))
              else if Adagrad.lp self = 2 then
                and_then (broadcast (*) gradient rate) (\<lambda>a.
                and_then (numeric theta_m1) (\<lambda>th.
                and_then (broadcast (+) a (tmap (\<lambda>y. Adagrad.mom self * y) th)) (\<lambda>b.
                  broadcast (+) b (tmap (\<lambda>y. Adagrad.lmbda self * y) th))))
              else Inl NotImplementedError,
              self')))"

definition Adagrad_reset :: "Adagrad \<Rightarrow> Adagrad" where
  "Adagrad_reset self = self\<lparr>adagrad_learn_rate := None\<rparr>"

subsection \<open>\<^verbatim>\<open>RMSprop\<close>\<close>

text \<open>
  The class has no attribute \<open>lp\<close>. The functions are defined on every extension of the
  record, which stands for attributes that a caller may have set on the instance.
\<close>

record RMSprop = GDTemplate +
  rmsProp_update :: tensor
  decay :: real
  lmbda :: real

definition RMSprop_init :: "real \<Rightarrow> real \<Rightarrow> real \<Rightarrow> RMSprop" where
  "RMSprop_init learning_rate decay0 lmbda0 =
     \<lparr>eta = learning_rate, rmsProp_update = Scalar 0, decay = decay0,
      RMSprop.lmbda = lmbda0\<rparr>"

definition RMSprop_update_change ::
  "'a RMSprop_scheme \<Rightarrow> tensor \<Rightarrow> tensor option \<Rightarrow> (error + tensor) \<times> 'a RMSprop_scheme" where
  "RMSprop_update_change self gradient theta_m1 =
     (let delta = 1 / 10 ^ 8 in
      case and_then (broadcast (*) (tmap (\<lambda>x. (1 - decay self) * x) gradient) gradient)
             (broadcast (+) (tmap (\<lambda>v. decay self * v) (rmsProp_update self))) of
        Inl e \<Rightarrow> (Inl e, self)
      | Inr v \<Rightarrow>
          (and_then (broadcast (*)
                       (tmap (\<lambda>d. eta self / d) (tmap sqrt (tmap (\<lambda>x. x + delta) v)))
                       gradient) (\<lambda>a.
           and_then (numeric theta_m1) (\<lambda>th.
             broadcast (+) a (tmap (\<lambda>y. RMSprop.lmbda self * y) th))),
           self\<lparr>rmsProp_update := v\<rparr>))"

definition RMSprop_reset :: "'a RMSprop_scheme \<Rightarrow> 'a RMSprop_scheme" where
  "RMSprop_reset self = self\<lparr>rmsProp_update := Scalar 0\<rparr>"

subsection \<open>\<^verbatim>\<open>ADAM\<close>\<close>

record ADAM = GDTemplate +
  decay1 :: real
  decay2 :: real
  lmbda :: real
  s :: tensor
  r :: tensor
  t :: int

text \<open>\<^verbatim>\<open>decay_rates[0]\<close> and \<^verbatim>\<open>decay_rates[1]\<close> of a list that is too short raise
  \<^verbatim>\<open>IndexError\<close>.\<close>

definition ADAM_init :: "real \<Rightarrow> real list \<Rightarrow> real \<Rightarrow> error + ADAM" where
  "ADAM_init learning_rate decay_rates lmbda0 =
     (case decay_rates of
        d1 # d2 # _ \<Rightarrow>
          Inr \<lparr>eta = learning_rate, decay1 = d1, decay2 = d2, ADAM.lmbda = lmbda0,
               s = Scalar 0, r = Scalar 0, t = 1\<rparr>
      | _ \<Rightarrow> Inl IndexError)"

text \<open>
  The two assignments to \<^verbatim>\<open>self.s\<close> and \<^verbatim>\<open>self.r\<close> come first; an exception raised
  later leaves them in place.
\<close>

definition ADAM_update_change ::
  "ADAM \<Rightarrow> tensor \<Rightarrow> tensor option \<Rightarrow> (error + tensor) \<times> ADAM" where
  "ADAM_update_change self gradient theta_m1 =
     (let delta = 1 / 10 ^ 8 in
      case broadcast (+) (tmap (\<lambda>x. decay1 self * x) (s self))
                         (tmap (\<lambda>x. (1 - decay1 self) * x) gradient) of
        Inl e \<Rightarrow> (Inl e, self)
      | Inr s' \<Rightarrow>
          (let self1 = self\<lparr>s := s'\<rparr> in
           case and_then (broadcast (*) (tmap (\<lambda>x. (1 - decay2 self) * x) gradient) gradient)
                  (broadcast (+) (tmap (\<lambda>x. decay2 self * x) (r self))) of
             Inl e \<Rightarrow> (Inl e, self1)
           | Inr r' \<Rightarrow>
               (let self2 = self1\<lparr>r := r'\<rparr> in
                (and_then (py_pow (decay1 self) (t self)) (\<lambda>p1.
                 and_then (py_pow (decay2 self) (t self)) (\<lambda>p2.
                   (let s_corr = tmap (\<lambda>x. x / (1 - p1)) s';
                        r_corr = tmap (\<lambda>x. x / (1 - p2)) r'
                    in
                      and_then (broadcast (/) s_corr
                                  (tmap (\<lambda>x. x + delta) (tmap sqrt r_corr))) (\<lambda>q.
                      and_then (numeric theta_m1) (\<lambda>th.
                        broadcast (+) (tmap (\<lambda>x. eta self * x) q)
                                      (tmap (\<lambda>y. ADAM.lmbda self * y) th)))))),
                 self2))))"

definition ADAM_reset :: "ADAM \<Rightarrow> ADAM" where
  "ADAM_reset self = self\<lparr>s := Scalar 0, r := Scalar 0, t := t self + 1\<rparr>"

subsection \<open>Sequences of calls on one instance\<close>

text \<open>
  The training loop drives one instance through a sequence of calls. An exception of
  \<^verbatim>\<open>update_change\<close> is caught by the caller and the instance stays as the call left it.
\<close>

datatype call = Update tensor "tensor option" | Reset

fun Adagrad_calls :: "Adagrad \<Rightarrow> call list \<Rightarrow> Adagrad" where
  "Adagrad_calls self [] = self"
| "Adagrad_calls self (Update gradient theta_m1 # cs) =
     Adagrad_calls (snd (Adagrad_update_change self gradient theta_m1)) cs"
| "Adagrad_calls self (Reset # cs) = Adagrad_calls (Adagrad_reset self) cs"

fun ADAM_calls :: "ADAM \<Rightarrow> call list \<Rightarrow> ADAM" where
  "ADAM_calls self [] = self"
| "ADAM_calls self (Update gradient theta_m1 # cs) =
     ADAM_calls (snd (ADAM_update_change self gradient theta_m1)) cs"
| "ADAM_calls self (Reset # cs) = ADAM_calls (ADAM_reset self) cs"

fun is_update :: "call \<Rightarrow> bool" where
  "is_update (Update gradient theta_m1) = True"
| "is_update Reset = False"

section \<open>The update rules as the specification writes them\<close>

text \<open>
  The penalty term of the specification, for one element \<open>y\<close> of the previous update:
  none for order 0, \<open>lambda * sign y\<close> for order 1, \<open>lambda * y\<close> for order 2.
\<close>

definition regularization_term :: "int \<Rightarrow> real \<Rightarrow> real \<Rightarrow> real" where
  "regularization_term order lambda y =
     (if order = 1 then lambda * sgn y else if order = 2 then lambda * y else 0)"

text \<open>
  The update rules of RMSProp for one element: the moving average
  \<open>v = decay * v + (1 - decay) * gradient * gradient\<close> and the update
  \<open>eta / sqrt(v + eps) * gradient + lambda * previous_update\<close> with \<open>eps = 1e-8\<close>.
\<close>

definition rmsprop_average :: "real \<Rightarrow> real \<Rightarrow> real \<Rightarrow> real" where
  "rmsprop_average d v g = d * v + (1 - d) * g * g"

definition rmsprop_update :: "real \<Rightarrow> real \<Rightarrow> real \<Rightarrow> real \<Rightarrow> real \<Rightarrow> real" where
  "rmsprop_update e lambda v g p = e / sqrt (v + 1 / 10 ^ 8) * g + lambda * p"

text \<open>
  A value fits a length \<open>n\<close> when numpy combines it with an array of that length into an
  array of that length: a scalar, an array of length \<open>n\<close>, or an array of length one.
  \<open>elem v i\<close> is the element that is then used at index \<open>i\<close>.
\<close>

fun fits :: "tensor \<Rightarrow> nat \<Rightarrow> bool" where
  "fits (Scalar a) n = True"
| "fits (Arr xs) n = (length xs = n \<or> length xs = 1)"

fun elem :: "tensor \<Rightarrow> nat \<Rightarrow> real" where
  "elem (Scalar a) i = a"
| "elem (Arr xs) i = (if length xs = 1 then xs ! 0 else xs ! i)"

section \<open>Facts about the numeric operations\<close>

lemma py_pow_in_range:
  assumes "0 \<le> n" and "\<bar>x\<bar> \<le> 1"
  shows "py_pow x n = Inr (x ^ nat n)"
proof -
  have "\<bar>x ^ nat n\<bar> = \<bar>x\<bar> ^ nat n"
    by (rule power_abs)
  also have "\<dots> \<le> 1"
    using assms(2) by (intro power_le_one) simp_all
  also have "(1::real) < double_overflow"
    by (simp add: double_overflow_def)
  finally have "\<not> double_overflow \<le> \<bar>x ^ nat n\<bar>"
    by simp
  with assms(1) show ?thesis
    by (simp add: py_pow_def)
qed

lemma broadcast_self: "broadcast f v v = Inr (tmap (\<lambda>x. f x x) v)"
  by (cases v) (simp_all add: zip_same_conv_map)

lemma tmap_tmap: "tmap f (tmap g v) = tmap (\<lambda>x. f (g x)) v"
  by (cases v) simp_all

lemma hd_single: "length xs = Suc 0 \<Longrightarrow> hd xs = xs ! 0"
  by (cases xs) simp_all

lemma broadcast_fits:
  assumes "fits v (length ys)"
  shows "broadcast f v (Arr ys) = Inr (Arr (map (\<lambda>i. f (elem v i) (ys ! i)) [0..<length ys]))"
proof (cases v)
  case (Scalar a)
  have "map (f a) ys = map (\<lambda>i. f a (ys ! i)) [0..<length ys]"
    by (rule nth_equalityI) simp_all
  with Scalar show ?thesis by simp
next
  case (Arr xs)
  show ?thesis
  proof (cases "length xs = length ys")
    case True
    have "map2 f xs ys = map (\<lambda>i. f (elem (Arr xs) i) (ys ! i)) [0..<length ys]"
      using True by (intro nth_equalityI) auto
    with Arr True show ?thesis by simp
  next
    case False
    with assms Arr have one: "length xs = Suc 0" by simp
    have "map (f (hd xs)) ys = map (\<lambda>i. f (elem (Arr xs) i) (ys ! i)) [0..<length ys]"
      using one by (intro nth_equalityI) (auto simp: hd_single)
    with Arr False one show ?thesis by simp
  qed
qed

lemma broadcast_index:
  assumes "length xs = length ys"
  shows "broadcast f (Arr xs) (Arr ys) = Inr (Arr (map (\<lambda>i. f (xs ! i) (ys ! i)) [0..<length ys]))"
proof -
  have "map2 f xs ys = map (\<lambda>i. f (xs ! i) (ys ! i)) [0..<length ys]"
    using assms by (intro nth_equalityI) auto
  with assms show ?thesis by simp
qed

lemma fits_tmap: "fits (tmap f v) n = fits v n"
  by (cases v) simp_all

lemma elem_tmap: "fits v n \<Longrightarrow> i < n \<Longrightarrow> elem (tmap f v) i = f (elem v i)"
  by (cases v) auto

lemma squared_average:
  assumes "fits v (length g)"
  shows "and_then (broadcast (*) (tmap (\<lambda>x. (1 - d) * x) (Arr g)) (Arr g))
               (broadcast (+) (tmap (\<lambda>x. d * x) v))
         = Inr (Arr (map (\<lambda>i. d * elem v i + (1 - d) * g ! i * g ! i) [0..<length g]))"
proof -
  let ?g2 = "map (\<lambda>i. (1 - d) * g ! i * g ! i) [0..<length g]"
  have g2: "broadcast (*) (tmap (\<lambda>x. (1 - d) * x) (Arr g)) (Arr g) = Inr (Arr ?g2)"
    using broadcast_index [of "map (\<lambda>x. (1 - d) * x) g" g "(*)"]
    by (simp cong: map_cong)
  have lst: "map (\<lambda>i. elem (tmap (\<lambda>x. d * x) v) i + ?g2 ! i) [0..<length g]
             = map (\<lambda>i. d * elem v i + (1 - d) * g ! i * g ! i) [0..<length g]"
    using assms by (intro nth_equalityI) (simp_all add: elem_tmap)
  have raw: "broadcast (+) (tmap (\<lambda>x. d * x) v) (Arr ?g2)
             = Inr (Arr (map (\<lambda>i. elem (tmap (\<lambda>x. d * x) v) i + ?g2 ! i) [0..<length g]))"
    using broadcast_fits [of "tmap (\<lambda>x. d * x) v" ?g2 "(+)"] assms
    by (simp only: fits_tmap length_map length_upt minus_nat.diff_0)
  show ?thesis
    unfolding g2 and_then.simps by (simp only: raw lst)
qed

lemma linear_average:
  assumes "fits v (length g)"
  shows "broadcast (+) (tmap (\<lambda>x. d * x) v) (tmap (\<lambda>x. (1 - d) * x) (Arr g))
         = Inr (Arr (map (\<lambda>i. d * elem v i + (1 - d) * g ! i) [0..<length g]))"
proof -
  have lst: "map (\<lambda>i. elem (tmap (\<lambda>x. d * x) v) i + map (\<lambda>x. (1 - d) * x) g ! i) [0..<length g]
             = map (\<lambda>i. d * elem v i + (1 - d) * g ! i) [0..<length g]"
    using assms by (intro nth_equalityI) (simp_all add: elem_tmap)
  have raw: "broadcast (+) (tmap (\<lambda>x. d * x) v) (Arr (map (\<lambda>x. (1 - d) * x) g))
             = Inr (Arr (map (\<lambda>i. elem (tmap (\<lambda>x. d * x) v) i + map (\<lambda>x. (1 - d) * x) g ! i)
                           [0..<length g]))"
    using broadcast_fits [of "tmap (\<lambda>x. d * x) v" "map (\<lambda>x. (1 - d) * x) g" "(+)"] assms
    by (simp only: fits_tmap length_map)
  show ?thesis
    unfolding tmap.simps by (simp only: raw lst)
qed

lemma broadcast_unfit:
  assumes "\<not> fits v (length ys)" and "length ys \<noteq> 1"
  shows "broadcast f v (Arr ys) = Inl ValueError"
  using assms by (cases v) auto

lemma squared_unfit:
  assumes "length g \<noteq> 1" and "\<not> fits v (length g)"
  shows "and_then (broadcast (*) (tmap (\<lambda>x. (1 - d) * x) (Arr g)) (Arr g))
               (broadcast (+) (tmap (\<lambda>x. d * x) v)) = Inl ValueError"
proof -
  have sq: "broadcast (*) (tmap (\<lambda>x. (1 - d) * x) (Arr g)) (Arr g)
              = Inr (Arr (map2 (*) (map (\<lambda>x. (1 - d) * x) g) g))"
    by simp
  have "broadcast (+) (tmap (\<lambda>x. d * x) v) (Arr (map2 (*) (map (\<lambda>x. (1 - d) * x) g) g))
          = Inl ValueError"
    using assms by (intro broadcast_unfit) (simp_all add: fits_tmap)
  then show ?thesis
    unfolding sq and_then.simps .
qed

section \<open>Plain gradient descent without regularization\<close>

text \<open>
  C3. A \<open>PlainGD\<close> instance with \<open>lp = 0\<close> returns exactly \<open>eta * gradient\<close>, element by
  element, for a scalar and for an array gradient, whatever the previous update is.
\<close>

theorem PlainGD_lp0_eta_gradient:
  "PlainGD.lp self = 0 \<Longrightarrow>
     PlainGD_update_change self (Scalar x) theta_m1 = Inr (Scalar (eta self * x)) \<and>
     PlainGD_update_change self (Arr xs) theta_m1 = Inr (Arr (map (\<lambda>x. eta self * x) xs))"
  by (simp add: PlainGD_update_change_def)

theorem PlainGD_lp0_eta_gradient_witness:
  "PlainGD.lp (PlainGD_init (1/100) 5 0) = 0 \<and>
   PlainGD_update_change (PlainGD_init (1/100) 5 0) (Arr [1, -2, 0]) None
     = Inr (Arr [1/100, -2/100, 0])"
  using PlainGD_lp0_eta_gradient [of "PlainGD_init (1/100) 5 0" 0 None "[1, -2, 0]"]
  by (simp add: PlainGD_init_def)

text \<open>
  C9. With \<open>lp = 0\<close>, \<open>PlainGD.update_change\<close> never reads \<open>theta_m1\<close>: any two previous
  updates, the default \<^verbatim>\<open>None\<close> included, give the same returned update, and the call
  with \<^verbatim>\<open>None\<close> returns a value instead of raising.
\<close>

theorem PlainGD_lp0_ignores_theta:
  "PlainGD.lp self = 0 \<Longrightarrow>
     PlainGD_update_change self gradient theta_a = PlainGD_update_change self gradient theta_b \<and>
     (\<exists>u. PlainGD_update_change self gradient None = Inr u)"
  by (simp add: PlainGD_update_change_def)

theorem PlainGD_lp0_ignores_theta_witness:
  "PlainGD.lp (PlainGD_init 2 3 0) = 0 \<and>
   PlainGD_update_change (PlainGD_init 2 3 0) (Arr [1, 4]) None =
   PlainGD_update_change (PlainGD_init 2 3 0) (Arr [1, 4]) (Some (Arr [7, 8, 9]))"
  using PlainGD_lp0_ignores_theta
          [of "PlainGD_init 2 3 0" "Arr [1, 4]" None "Some (Arr [7, 8, 9])"]
  by (simp add: PlainGD_init_def)

section \<open>Adagrad\<close>

lemma Adagrad_arrays:
  assumes "Adagrad.lp self \<in> {0, 1, 2}" and "length p = length g"
  shows "Adagrad_update_change self (Arr g) (Some (Arr p)) =
     (Inr (Arr (map (\<lambda>i. g ! i * (eta self / adagrad_divisor (g ! i * g ! i))
                       + Adagrad.mom self * p ! i
                       + regularization_term (Adagrad.lp self) (Adagrad.lmbda self) (p ! i))
                 [0..<length g])),
      self\<lparr>adagrad_learn_rate :=
        Some (Arr (map (\<lambda>x. eta self / adagrad_divisor (x * x)) g))\<rparr>)"
proof -
  from assms(1) consider "Adagrad.lp self = 0" | "Adagrad.lp self = 1" | "Adagrad.lp self = 2"
    by auto
  then show ?thesis
  proof cases
    case 1
    with assms(2) show ?thesis
      by (auto simp: Adagrad_update_change_def Let_def regularization_term_def zip_same_conv_map
            o_def intro!: nth_equalityI)
  next
    case 2
    with assms(2) show ?thesis
      by (auto simp: Adagrad_update_change_def Let_def regularization_term_def zip_same_conv_map
            o_def intro!: nth_equalityI)
  next
    case 3
    with assms(2) show ?thesis
      by (auto simp: Adagrad_update_change_def Let_def regularization_term_def zip_same_conv_map
            o_def intro!: nth_equalityI)
  qed
qed

lemma Adagrad_fst_rate:
  "fst (Adagrad_update_change (self\<lparr>adagrad_learn_rate := x\<rparr>) gradient theta_m1)
     = fst (Adagrad_update_change self gradient theta_m1)"
  by (simp add: Adagrad_update_change_def broadcast_self Let_def del: broadcast.simps)

lemma Adagrad_snd_rate:
  "snd (Adagrad_update_change self gradient theta_m1) =
     self\<lparr>adagrad_learn_rate :=
       Some (tmap (\<lambda>d. eta self / d) (tmap adagrad_divisor (tmap (\<lambda>x. x * x) gradient)))\<rparr>"
  by (simp add: Adagrad_update_change_def broadcast_self Let_def del: broadcast.simps)

lemma Adagrad_calls_rate: "\<exists>x. Adagrad_calls self cs = self\<lparr>adagrad_learn_rate := x\<rparr>"
proof (induction cs arbitrary: self)
  case Nil
  have "Adagrad_calls self [] = self\<lparr>adagrad_learn_rate := adagrad_learn_rate self\<rparr>" by simp
  then show ?case by (rule exI)
next
  case (Cons c cs)
  show ?case
  proof (cases c)
    case (Update gradient theta_m1)
    let ?y = "Some (tmap (\<lambda>d. eta self / d) (tmap adagrad_divisor (tmap (\<lambda>x. x * x) gradient)))"
    obtain x where "Adagrad_calls (self\<lparr>adagrad_learn_rate := ?y\<rparr>) cs
                      = self\<lparr>adagrad_learn_rate := ?y\<rparr>\<lparr>adagrad_learn_rate := x\<rparr>"
      using Cons.IH by blast
    with Update have "Adagrad_calls self (c # cs) = self\<lparr>adagrad_learn_rate := x\<rparr>"
      by (simp add: Adagrad_snd_rate)
    then show ?thesis by (rule exI)
  next
    case Reset
    obtain x where "Adagrad_calls (self\<lparr>adagrad_learn_rate := None\<rparr>) cs
                      = self\<lparr>adagrad_learn_rate := None\<rparr>\<lparr>adagrad_learn_rate := x\<rparr>"
      using Cons.IH by blast
    with Reset have "Adagrad_calls self (c # cs) = self\<lparr>adagrad_learn_rate := x\<rparr>"
      by (simp add: Adagrad_reset_def)
    then show ?thesis by (rule exI)
  qed
qed

text \<open>
  C4. \<open>Adagrad.update_change\<close> carries no functional state: after any sequence of earlier
  calls (updates that returned or raised, and resets) the returned value is the one of
  the instance as constructed, for every gradient and previous update. For a valid \<open>lp\<close>
  and arrays of one length it is, element by element,
  \<open>gradient * (eta / (1e-7 + sqrt(gradient * gradient))) + momentum * previous_update\<close> plus
  the regularization term selected by \<open>lp\<close>.
\<close>

theorem Adagrad_memoryless:
  "fst (Adagrad_update_change (Adagrad_calls self cs) gradient theta_m1)
     = fst (Adagrad_update_change self gradient theta_m1) \<and>
   (Adagrad.lp self \<in> {0, 1, 2} \<and> length p = length g \<longrightarrow>
      fst (Adagrad_update_change (Adagrad_calls self cs) (Arr g) (Some (Arr p))) =
        Inr (Arr (map (\<lambda>i. g ! i * (eta self / (1 / 10 ^ 7 + sqrt (g ! i * g ! i)))
                          + Adagrad.mom self * p ! i
                          + regularization_term (Adagrad.lp self) (Adagrad.lmbda self) (p ! i))
                    [0..<length g])))"
proof -
  obtain x where x: "Adagrad_calls self cs = self\<lparr>adagrad_learn_rate := x\<rparr>"
    using Adagrad_calls_rate by blast
  have same: "fst (Adagrad_update_change (Adagrad_calls self cs) v w)
                = fst (Adagrad_update_change self v w)" for v w
    unfolding x by (rule Adagrad_fst_rate)
  show ?thesis
    using Adagrad_arrays [of self p g]
    by (auto simp: same adagrad_divisor_def)
qed

theorem Adagrad_memoryless_witness:
  "Adagrad.lp (Adagrad_init (1/100) (1/2) 2 1) \<in> {0, 1, 2} \<and>
   length [1, - 1 :: real] = length [2, 0 :: real] \<and>
   fst (Adagrad_update_change
          (Adagrad_calls (Adagrad_init (1/100) (1/2) 2 1)
             [Update (Arr [3]) (Some (Arr [1])), Reset, Update (Arr [5, 5]) None])
          (Arr [2, 0]) (Some (Arr [1, - 1])))
     = Inr (Arr [2 * (1/100 / (1 / 10 ^ 7 + 2)) + 1/2 + 2, - (1/2) - 2])"
proof -
  have v: "Adagrad.lp (Adagrad_init (1/100) (1/2) 2 1) \<in> {0, 1, 2}"
    by (simp add: Adagrad_init_def)
  have l: "length [1, - 1 :: real] = length [2, 0 :: real]" by simp
  from Adagrad_memoryless
          [of "Adagrad_init (1/100) (1/2) 2 1"
              "[Update (Arr [3]) (Some (Arr [1])), Reset, Update (Arr [5, 5]) None]"
              "Arr [2, 0]" "Some (Arr [1, - 1])" "[1, - 1]" "[2, 0]"] v l
  have "fst (Adagrad_update_change
          (Adagrad_calls (Adagrad_init (1/100) (1/2) 2 1)
             [Update (Arr [3]) (Some (Arr [1])), Reset, Update (Arr [5, 5]) None])
          (Arr [2, 0]) (Some (Arr [1, - 1])))
     = Inr (Arr (map (\<lambda>i. [2, 0] ! i * (eta (Adagrad_init (1/100) (1/2) 2 1)
                               / (1 / 10 ^ 7 + sqrt ([2, 0] ! i * [2, 0] ! i)))
                          + Adagrad.mom (Adagrad_init (1/100) (1/2) 2 1) * [1, - 1] ! i
                          + regularization_term (Adagrad.lp (Adagrad_init (1/100) (1/2) 2 1))
                              (Adagrad.lmbda (Adagrad_init (1/100) (1/2) 2 1)) ([1, - 1] ! i))
                    [0..<length [2, 0 :: real]]))"
    by blast
  also have "\<dots> = Inr (Arr [2 * (1/100 / (1 / 10 ^ 7 + 2)) + 1/2 + 2, - (1/2) - 2])"
    by (simp add: Adagrad_init_def regularization_term_def upt_rec)
  finally show ?thesis using v l by blast
qed

section \<open>RMSProp\<close>

text \<open>
  C6. \<open>RMSprop.update_change\<close>, for a gradient and a previous update of one length and a
  moving average \<open>v\<close> that fits it (the initial 0 included), assigns
  \<open>v' = decay * v + (1 - decay) * gradient * gradient\<close> to the moving average and returns
  \<open>eta / sqrt(v' + 1e-8) * gradient + lambda * previous_update\<close>, element by element. The
  regularization term is \<open>lambda * previous_update\<close> whatever other attribute, such as an
  \<open>lp\<close>, the instance carries: the statement holds for every extension of the record, and
  the extension is returned unchanged.
\<close>

theorem RMSprop_update_change_formula:
  assumes "fits (rmsProp_update self) (length g)" and "length p = length g"
  shows "RMSprop_update_change self (Arr g) (Some (Arr p)) =
     (Inr (Arr (map (\<lambda>i. rmsprop_update (eta self) (RMSprop.lmbda self)
                    (rmsprop_average (decay self) (elem (rmsProp_update self) i) (g ! i))
                    (g ! i) (p ! i)) [0..<length g])),
      self\<lparr>rmsProp_update :=
        Arr (map (\<lambda>i. rmsprop_average (decay self) (elem (rmsProp_update self) i) (g ! i))
               [0..<length g])\<rparr>)"
proof -
  let ?v = "\<lambda>i. decay self * elem (rmsProp_update self) i + (1 - decay self) * g ! i * g ! i"
  have out: "map2 (+) (map2 (*) (map (\<lambda>x. eta self / sqrt (x + 1 / 10 ^ 8)) (map ?v [0..<length g])) g)
                      (map (\<lambda>y. RMSprop.lmbda self * y) p)
             = map (\<lambda>i. rmsprop_update (eta self) (RMSprop.lmbda self) (?v i) (g ! i) (p ! i))
                 [0..<length g]"
    using assms(2) by (intro nth_equalityI) (simp_all add: rmsprop_update_def)
  show ?thesis
    unfolding RMSprop_update_change_def Let_def squared_average [OF assms(1)] rmsprop_average_def
    using assms(2) out
    by (simp add: o_def)
qed

theorem RMSprop_update_change_formula_witness:
  "fits (rmsProp_update (RMSprop_init (1/100) (9/10) 3)) (length [2, 0 :: real]) \<and>
   length [5, 7 :: real] = length [2, 0 :: real] \<and>
   RMSprop_update_change (RMSprop_init (1/100) (9/10) 3) (Arr [2, 0]) (Some (Arr [5, 7])) =
     (Inr (Arr [1/100 / sqrt (4/10 + 1 / 10 ^ 8) * 2 + 15, 21]),
      (RMSprop_init (1/100) (9/10) 3)\<lparr>rmsProp_update := Arr [4/10, 0]\<rparr>)"
proof -
  have f: "fits (rmsProp_update (RMSprop_init (1/100) (9/10) 3)) (length [2, 0 :: real])"
    by (simp add: RMSprop_init_def)
  have l: "length [5, 7 :: real] = length [2, 0 :: real]" by simp
  have "RMSprop_update_change (RMSprop_init (1/100) (9/10) 3) (Arr [2, 0]) (Some (Arr [5, 7])) =
     (Inr (Arr [1/100 / sqrt (4/10 + 1 / 10 ^ 8) * 2 + 15, 21]),
      (RMSprop_init (1/100) (9/10) 3)\<lparr>rmsProp_update := Arr [4/10, 0]\<rparr>)"
    unfolding RMSprop_update_change_formula [OF f l]
    by (simp add: RMSprop_init_def rmsprop_update_def rmsprop_average_def upt_rec)
  with f l show ?thesis by blast
qed

section \<open>Adam's step counter\<close>

lemma ADAM_update_change_frame:
  "t (snd (ADAM_update_change self gradient theta_m1)) = t self \<and>
   decay1 (snd (ADAM_update_change self gradient theta_m1)) = decay1 self \<and>
   decay2 (snd (ADAM_update_change self gradient theta_m1)) = decay2 self \<and>
   eta (snd (ADAM_update_change self gradient theta_m1)) = eta self \<and>
   ADAM.lmbda (snd (ADAM_update_change self gradient theta_m1)) = ADAM.lmbda self"
  by (simp add: ADAM_update_change_def Let_def split: sum.splits)

lemma ADAM_calls_frame:
  "list_all is_update cs \<Longrightarrow>
     t (ADAM_calls self cs) = t self \<and> decay1 (ADAM_calls self cs) = decay1 self \<and>
     decay2 (ADAM_calls self cs) = decay2 self"
proof (induction cs arbitrary: self)
  case Nil
  then show ?case by simp
next
  case (Cons c cs)
  then show ?case by (cases c) (simp_all add: ADAM_update_change_frame)
qed

lemma ADAM_init_t: "ADAM_init learning_rate decay_rates lmbda0 = Inr self \<Longrightarrow> t self = 1"
  by (auto simp: ADAM_init_def split: list.splits)

text \<open>
  C7. \<open>ADAM.reset\<close> sets \<open>s\<close> and \<open>r\<close> to 0 and adds 1 to \<open>t\<close>, changing nothing else. It does
  not put \<open>t\<close> back to 1: a counter that is at least 1, as it is from construction on, is
  different from 1 after the reset.
\<close>

theorem ADAM_reset_increments_t:
  "s (ADAM_reset self) = Scalar 0 \<and> r (ADAM_reset self) = Scalar 0 \<and>
   t (ADAM_reset self) = t self + 1 \<and>
   (1 \<le> t self \<longrightarrow> t (ADAM_reset self) \<noteq> 1) \<and>
   ADAM_reset self = self\<lparr>s := Scalar 0, r := Scalar 0, t := t self + 1\<rparr>"
  by (simp add: ADAM_reset_def)

theorem ADAM_reset_increments_t_witness:
  "(1::int) \<le> t \<lparr>eta = 1/100, decay1 = 9/10, decay2 = 99/100, ADAM.lmbda = 0,
                  s = Arr [1/10], r = Arr [1/100], t = 1\<rparr> \<and>
   t (ADAM_reset \<lparr>eta = 1/100, decay1 = 9/10, decay2 = 99/100, ADAM.lmbda = 0,
                   s = Arr [1/10], r = Arr [1/100], t = 1\<rparr>) = 2 \<and>
   s (ADAM_reset \<lparr>eta = 1/100, decay1 = 9/10, decay2 = 99/100, ADAM.lmbda = 0,
                   s = Arr [1/10], r = Arr [1/100], t = 1\<rparr>) = Scalar 0"
  using ADAM_reset_increments_t
          [of "\<lparr>eta = 1/100, decay1 = 9/10, decay2 = 99/100, ADAM.lmbda = 0,
                s = Arr [1/10], r = Arr [1/100], t = 1\<rparr>"]
  by simp

text \<open>
  C10. \<open>ADAM.update_change\<close> never changes the step counter \<open>t\<close>, whether it returns or
  raises. Over any sequence of update calls without a reset, \<open>t\<close>, \<open>decay1\<close> and \<open>decay2\<close>
  keep their values, so the powers \<open>decay1 ** t\<close> and \<open>decay2 ** t\<close> of the bias correction
  are the same on every call; from construction on \<open>t\<close> stays 1. A reset does change \<open>t\<close>.
\<close>

theorem ADAM_update_keeps_t:
  "t (snd (ADAM_update_change self gradient theta_m1)) = t self \<and>
   (list_all is_update cs \<longrightarrow>
      t (ADAM_calls self cs) = t self \<and>
      py_pow (decay1 (ADAM_calls self cs)) (t (ADAM_calls self cs))
        = py_pow (decay1 self) (t self) \<and>
      py_pow (decay2 (ADAM_calls self cs)) (t (ADAM_calls self cs))
        = py_pow (decay2 self) (t self)) \<and>
   (list_all is_update cs \<and> ADAM_init learning_rate decay_rates lmbda0 = Inr self \<longrightarrow>
      t (ADAM_calls self cs) = 1) \<and>
   t (ADAM_reset self) \<noteq> t self"
proof -
  have "t (ADAM_reset self) \<noteq> t self"
    by (simp add: ADAM_reset_def)
  moreover have "t (snd (ADAM_update_change self gradient theta_m1)) = t self"
    by (simp add: ADAM_update_change_frame)
  ultimately show ?thesis
    using ADAM_calls_frame [of cs self] ADAM_init_t [of learning_rate decay_rates lmbda0 self]
    by simp
qed

theorem ADAM_update_keeps_t_witness:
  "list_all is_update [Update (Arr [1]) (Some (Arr [0])), Update (Arr [1]) None,
                       Update (Arr [1, 2]) (Some (Arr [0]))] \<and>
   ADAM_init (1/100) [9/10, 99/100] 0
     = Inr \<lparr>eta = 1/100, decay1 = 9/10, decay2 = 99/100, ADAM.lmbda = 0,
            s = Scalar 0, r = Scalar 0, t = 1\<rparr> \<and>
   t (ADAM_calls \<lparr>eta = 1/100, decay1 = 9/10, decay2 = 99/100, ADAM.lmbda = 0,
                  s = Scalar 0, r = Scalar 0, t = 1\<rparr>
        [Update (Arr [1]) (Some (Arr [0])), Update (Arr [1]) None,
         Update (Arr [1, 2]) (Some (Arr [0]))]) = 1"
  using ADAM_update_keeps_t
          [of "\<lparr>eta = 1/100, decay1 = 9/10, decay2 = 99/100, ADAM.lmbda = 0,
                s = Scalar 0, r = Scalar 0, t = 1\<rparr>"
              "Arr [1]" None
              "[Update (Arr [1]) (Some (Arr [0])), Update (Arr [1]) None,
                Update (Arr [1, 2]) (Some (Arr [0]))]"
              "1/100" "[9/10, 99/100]" 0]
  by (simp add: ADAM_init_def)

section \<open>Exceptions: regularization order and shapes\<close>

lemma PlainGD_mismatch:
  assumes "length g \<noteq> length p" and "length g \<noteq> 1" and "length p \<noteq> 1"
    and "PlainGD.lp self \<in> {1, 2}"
  shows "PlainGD_update_change self (Arr g) (Some (Arr p)) = Inl ValueError"
  using assms by (auto simp: PlainGD_update_change_def)

lemma MomentumGD_mismatch:
  assumes "length g \<noteq> length p" and "length g \<noteq> 1" and "length p \<noteq> 1"
    and "MomentumGD.lp self \<in> {0, 1, 2}"
  shows "MomentumGD_update_change self (Arr g) (Some (Arr p)) = Inl ValueError"
  using assms by (auto simp: MomentumGD_update_change_def)

lemma Adagrad_mismatch:
  assumes "length g \<noteq> length p" and "length g \<noteq> 1" and "length p \<noteq> 1"
    and "Adagrad.lp self \<in> {0, 1, 2}"
  shows "Adagrad_update_change self (Arr g) (Some (Arr p)) =
           (Inl ValueError,
            self\<lparr>adagrad_learn_rate :=
              Some (Arr (map (\<lambda>x. eta self / adagrad_divisor (x * x)) g))\<rparr>)"
  using assms by (auto simp: Adagrad_update_change_def Let_def zip_same_conv_map o_def)

lemma RMSprop_mismatch_fits:
  assumes "length g \<noteq> length p" and "length g \<noteq> 1" and "length p \<noteq> 1"
    and "fits (rmsProp_update self) (length g)"
  shows "RMSprop_update_change self (Arr g) (Some (Arr p)) =
           (Inl ValueError,
            self\<lparr>rmsProp_update :=
              Arr (map (\<lambda>i. rmsprop_average (decay self) (elem (rmsProp_update self) i) (g ! i))
                     [0..<length g])\<rparr>)"
  unfolding RMSprop_update_change_def Let_def squared_average [OF assms(4)]
  using assms(1-3) by (simp add: rmsprop_average_def)

lemma RMSprop_mismatch_unfit:
  assumes "length g \<noteq> 1" and "\<not> fits (rmsProp_update self) (length g)"
  shows "RMSprop_update_change self (Arr g) theta_m1 = (Inl ValueError, self)"
  unfolding RMSprop_update_change_def Let_def squared_unfit [OF assms]
  by simp

lemma ADAM_mismatch_fits:
  assumes "length g \<noteq> length p" and "length g \<noteq> 1" and "length p \<noteq> 1"
    and "fits (s self) (length g)" and "fits (r self) (length g)" and "0 \<le> t self"
    and "\<bar>decay1 self\<bar> \<le> 1" and "\<bar>decay2 self\<bar> \<le> 1"
  shows "ADAM_update_change self (Arr g) (Some (Arr p)) =
           (Inl ValueError,
            self\<lparr>s := Arr (map (\<lambda>i. decay1 self * elem (s self) i + (1 - decay1 self) * g ! i)
                            [0..<length g]),
                 r := Arr (map (\<lambda>i. decay2 self * elem (r self) i
                                     + (1 - decay2 self) * g ! i * g ! i) [0..<length g])\<rparr>)"
  unfolding ADAM_update_change_def Let_def linear_average [OF assms(4)]
    squared_average [OF assms(5)]
    py_pow_in_range [OF assms(6,7)] py_pow_in_range [OF assms(6,8)]
  using assms(1-3) by simp

lemma ADAM_mismatch_unfit:
  assumes "length g \<noteq> 1" and "\<not> fits (s self) (length g) \<or> \<not> fits (r self) (length g)"
  shows "fst (ADAM_update_change self (Arr g) theta_m1) = Inl ValueError"
proof (cases "fits (s self) (length g)")
  case False
  have "broadcast (+) (tmap (\<lambda>x. decay1 self * x) (s self))
          (tmap (\<lambda>x. (1 - decay1 self) * x) (Arr g)) = Inl ValueError"
    using assms(1) False unfolding tmap.simps
    by (intro broadcast_unfit) (simp_all add: fits_tmap)
  then show ?thesis
    unfolding ADAM_update_change_def Let_def by simp
next
  case True
  with assms(2) have nr: "\<not> fits (r self) (length g)" by simp
  show ?thesis
    unfolding ADAM_update_change_def Let_def linear_average [OF True]
      squared_unfit [OF assms(1) nr]
    by simp
qed

text \<open>
  C1 (amended). With \<open>lp\<close> outside \<open>{0, 1, 2}\<close>, \<open>update_change\<close> of \<open>PlainGD\<close>,
  \<open>MomentumGD\<close> and \<open>Adagrad\<close> raises \<^verbatim>\<open>NotImplementedError\<close> for every gradient and
  previous update. \<open>PlainGD\<close> and \<open>MomentumGD\<close> assign no attribute. The failing call of
  \<open>Adagrad\<close> has already overwritten \<open>adagrad_learn_rate\<close> with
  \<open>eta / (1e-7 + sqrt(gradient * gradient))\<close> and changes nothing else; a follow-up call,
  with any order \<open>k\<close> set on the instance, returns what it would have returned had the
  failing call never happened.
\<close>

theorem lp_out_of_range_raises:
  "(PlainGD.lp pg \<notin> {0, 1, 2} \<longrightarrow>
      PlainGD_update_change pg gradient theta_m1 = Inl NotImplementedError) \<and>
   (MomentumGD.lp mg \<notin> {0, 1, 2} \<longrightarrow>
      MomentumGD_update_change mg gradient theta_m1 = Inl NotImplementedError) \<and>
   (Adagrad.lp ag \<notin> {0, 1, 2} \<longrightarrow>
      Adagrad_update_change ag gradient theta_m1 =
        (Inl NotImplementedError,
         ag\<lparr>adagrad_learn_rate :=
           Some (tmap (\<lambda>x. eta ag / adagrad_divisor (x * x)) gradient)\<rparr>) \<and>
      fst (Adagrad_update_change
             ((snd (Adagrad_update_change ag gradient theta_m1))\<lparr>Adagrad.lp := k\<rparr>)
             next_gradient next_theta)
        = fst (Adagrad_update_change (ag\<lparr>Adagrad.lp := k\<rparr>) next_gradient next_theta))"
proof -
  have plain: "PlainGD.lp pg \<notin> {0, 1, 2} \<longrightarrow>
      PlainGD_update_change pg gradient theta_m1 = Inl NotImplementedError"
    by (simp add: PlainGD_update_change_def)
  have momentum: "MomentumGD.lp mg \<notin> {0, 1, 2} \<longrightarrow>
      MomentumGD_update_change mg gradient theta_m1 = Inl NotImplementedError"
    by (simp add: MomentumGD_update_change_def)
  have raised: "Adagrad_update_change ag gradient theta_m1 =
        (Inl NotImplementedError,
         ag\<lparr>adagrad_learn_rate :=
           Some (tmap (\<lambda>x. eta ag / adagrad_divisor (x * x)) gradient)\<rparr>)"
    if "Adagrad.lp ag \<notin> {0, 1, 2}"
    using that
    by (simp add: Adagrad_update_change_def broadcast_self Let_def tmap_tmap
          del: broadcast.simps)
  have follow: "fst (Adagrad_update_change
             ((snd (Adagrad_update_change ag gradient theta_m1))\<lparr>Adagrad.lp := k\<rparr>)
             next_gradient next_theta)
        = fst (Adagrad_update_change (ag\<lparr>Adagrad.lp := k\<rparr>) next_gradient next_theta)"
  proof -
    have swap: "(ag\<lparr>adagrad_learn_rate := y\<rparr>)\<lparr>Adagrad.lp := k\<rparr>
                  = (ag\<lparr>Adagrad.lp := k\<rparr>)\<lparr>adagrad_learn_rate := y\<rparr>" for y
      by simp
    show ?thesis
      unfolding Adagrad_snd_rate swap by (rule Adagrad_fst_rate)
  qed
  from plain momentum raised follow show ?thesis by blast
qed

theorem lp_out_of_range_raises_witness:
  "PlainGD.lp (PlainGD_init (1/100) 1 3) \<notin> {0, 1, 2} \<and>
   MomentumGD.lp (MomentumGD_init (1/100) (1/2) 1 (- 1)) \<notin> {0, 1, 2} \<and>
   Adagrad.lp (Adagrad_init (1/100) (1/2) 1 3) \<notin> {0, 1, 2} \<and>
   PlainGD_update_change (PlainGD_init (1/100) 1 3) (Arr [1, 2]) (Some (Arr [0, 0]))
     = Inl NotImplementedError \<and>
   MomentumGD_update_change (MomentumGD_init (1/100) (1/2) 1 (- 1)) (Arr [1, 2]) (Some (Arr [0, 0]))
     = Inl NotImplementedError \<and>
   Adagrad_update_change (Adagrad_init (1/100) (1/2) 1 3) (Arr [1, 2]) (Some (Arr [0, 0]))
     = (Inl NotImplementedError,
        (Adagrad_init (1/100) (1/2) 1 3)\<lparr>adagrad_learn_rate :=
           Some (tmap (\<lambda>x. eta (Adagrad_init (1/100) (1/2) 1 3) / adagrad_divisor (x * x))
                   (Arr [1, 2]))\<rparr>) \<and>
   fst (Adagrad_update_change
          ((snd (Adagrad_update_change (Adagrad_init (1/100) (1/2) 1 3) (Arr [1, 2])
                   (Some (Arr [0, 0]))))\<lparr>Adagrad.lp := 2\<rparr>)
          (Arr [0, 0]) (Some (Arr [1, 2])))
     = fst (Adagrad_update_change ((Adagrad_init (1/100) (1/2) 1 3)\<lparr>Adagrad.lp := 2\<rparr>)
          (Arr [0, 0]) (Some (Arr [1, 2])))"
proof -
  have "PlainGD.lp (PlainGD_init (1/100) 1 3) \<notin> {0, 1, 2}"
    and "MomentumGD.lp (MomentumGD_init (1/100) (1/2) 1 (- 1)) \<notin> {0, 1, 2}"
    and "Adagrad.lp (Adagrad_init (1/100) (1/2) 1 3) \<notin> {0, 1, 2}"
    by (simp_all add: PlainGD_init_def MomentumGD_init_def Adagrad_init_def)
  with lp_out_of_range_raises
          [of "PlainGD_init (1/100) 1 3" "Arr [1, 2]" "Some (Arr [0, 0])"
              "MomentumGD_init (1/100) (1/2) 1 (- 1)" "Adagrad_init (1/100) (1/2) 1 3"
              2 "Arr [0, 0]" "Some (Arr [1, 2])"]
  show ?thesis by blast
qed

text \<open>
  The claim as stated, that the failing call performs no state mutation, fails for
  \<open>Adagrad\<close>: constructed with \<open>lp = 3\<close>, the call raises and leaves
  \<open>adagrad_learn_rate\<close> changed from \<^verbatim>\<open>None\<close> to an array.
\<close>

theorem Adagrad_failing_call_mutates_counterexample:
  "fst (Adagrad_update_change (Adagrad_init (1/100) 0 0 3) (Arr [1]) (Some (Arr [0])))
     = Inl NotImplementedError \<and>
   adagrad_learn_rate (Adagrad_init (1/100) 0 0 3) = None \<and>
   adagrad_learn_rate
     (snd (Adagrad_update_change (Adagrad_init (1/100) 0 0 3) (Arr [1]) (Some (Arr [0]))))
     = Some (Arr [1/100 / (1 / 10 ^ 7 + 1)]) \<and>
   snd (Adagrad_update_change (Adagrad_init (1/100) 0 0 3) (Arr [1]) (Some (Arr [0])))
     \<noteq> Adagrad_init (1/100) 0 0 3"
  by (simp add: Adagrad_init_def Adagrad_update_change_def adagrad_divisor_def Let_def)

text \<open>
  C2 (amended). No optimizer compares shapes. For a gradient and a previous update that
  are arrays of different lengths, neither of length one, so that numpy cannot broadcast
  them: \<open>PlainGD\<close> with \<open>lp = 0\<close> does not read the previous update and returns
  \<open>eta * gradient\<close>; \<open>PlainGD\<close> with \<open>lp\<close> 1 or 2, \<open>MomentumGD\<close> and \<open>Adagrad\<close> with a
  valid \<open>lp\<close>, \<open>RMSprop\<close>, and \<open>ADAM\<close> with \<open>t \<ge> 0\<close> and decay rates of magnitude at most
  1 (so that \<^verbatim>\<open>decay ** t\<close> raises nothing) raise numpy's \<^verbatim>\<open>ValueError\<close>, and
  \<open>GDTemplate\<close> raises \<^verbatim>\<open>RuntimeError\<close> on every call. \<open>PlainGD\<close> and \<open>MomentumGD\<close> assign no
  attribute. When the exception is raised \<open>Adagrad\<close> has overwritten \<open>adagrad_learn_rate\<close>,
  and \<open>RMSprop\<close> and \<open>ADAM\<close>, whose accumulators fit the gradient, have assigned the new
  moving averages.
\<close>

theorem broadcast_failure_on_mismatch:
  assumes "length g \<noteq> length p" and "length g \<noteq> 1" and "length p \<noteq> 1"
  shows
  "GDTemplate_update_change base (Arr g) (Some (Arr p)) = Inl RuntimeError \<and>
   (PlainGD.lp pg0 = 0 \<longrightarrow>
      PlainGD_update_change pg0 (Arr g) (Some (Arr p)) = Inr (Arr (map (\<lambda>x. eta pg0 * x) g))) \<and>
   (PlainGD.lp pg \<in> {1, 2} \<longrightarrow>
      PlainGD_update_change pg (Arr g) (Some (Arr p)) = Inl ValueError) \<and>
   (MomentumGD.lp mg \<in> {0, 1, 2} \<longrightarrow>
      MomentumGD_update_change mg (Arr g) (Some (Arr p)) = Inl ValueError) \<and>
   (Adagrad.lp ag \<in> {0, 1, 2} \<longrightarrow>
      Adagrad_update_change ag (Arr g) (Some (Arr p)) =
        (Inl ValueError,
         ag\<lparr>adagrad_learn_rate :=
           Some (Arr (map (\<lambda>x. eta ag / adagrad_divisor (x * x)) g))\<rparr>)) \<and>
   fst (RMSprop_update_change rp (Arr g) (Some (Arr p))) = Inl ValueError \<and>
   (fits (rmsProp_update rp) (length g) \<longrightarrow>
      snd (RMSprop_update_change rp (Arr g) (Some (Arr p))) =
        rp\<lparr>rmsProp_update :=
          Arr (map (\<lambda>i. rmsprop_average (decay rp) (elem (rmsProp_update rp) i) (g ! i))
                 [0..<length g])\<rparr>) \<and>
   (0 \<le> t ad \<and> \<bar>decay1 ad\<bar> \<le> 1 \<and> \<bar>decay2 ad\<bar> \<le> 1 \<longrightarrow>
      fst (ADAM_update_change ad (Arr g) (Some (Arr p))) = Inl ValueError) \<and>
   (0 \<le> t ad \<and> \<bar>decay1 ad\<bar> \<le> 1 \<and> \<bar>decay2 ad\<bar> \<le> 1 \<and>
    fits (s ad) (length g) \<and> fits (r ad) (length g) \<longrightarrow>
      snd (ADAM_update_change ad (Arr g) (Some (Arr p))) =
        ad\<lparr>s := Arr (map (\<lambda>i. decay1 ad * elem (s ad) i + (1 - decay1 ad) * g ! i)
                       [0..<length g]),
            r := Arr (map (\<lambda>i. decay2 ad * elem (r ad) i + (1 - decay2 ad) * g ! i * g ! i)
                       [0..<length g])\<rparr>)"
proof -
  have template: "GDTemplate_update_change base (Arr g) (Some (Arr p)) = Inl RuntimeError"
    by (simp add: GDTemplate_update_change_def)
  have plain0: "PlainGD.lp pg0 = 0 \<longrightarrow>
      PlainGD_update_change pg0 (Arr g) (Some (Arr p)) = Inr (Arr (map (\<lambda>x. eta pg0 * x) g))"
    by (simp add: PlainGD_update_change_def)
  have plain: "PlainGD.lp pg \<in> {1, 2} \<longrightarrow>
      PlainGD_update_change pg (Arr g) (Some (Arr p)) = Inl ValueError"
    using PlainGD_mismatch [OF assms] by blast
  have momentum: "MomentumGD.lp mg \<in> {0, 1, 2} \<longrightarrow>
      MomentumGD_update_change mg (Arr g) (Some (Arr p)) = Inl ValueError"
    using MomentumGD_mismatch [OF assms] by blast
  have adagrad: "Adagrad.lp ag \<in> {0, 1, 2} \<longrightarrow>
      Adagrad_update_change ag (Arr g) (Some (Arr p)) =
        (Inl ValueError,
         ag\<lparr>adagrad_learn_rate :=
           Some (Arr (map (\<lambda>x. eta ag / adagrad_divisor (x * x)) g))\<rparr>)"
    using Adagrad_mismatch [OF assms] by blast
  have rms: "fst (RMSprop_update_change rp (Arr g) (Some (Arr p))) = Inl ValueError"
    using RMSprop_mismatch_fits [OF assms, of rp] RMSprop_mismatch_unfit [OF assms(2), of rp]
    by (cases "fits (rmsProp_update rp) (length g)") simp_all
  have rms_state: "fits (rmsProp_update rp) (length g) \<longrightarrow>
      snd (RMSprop_update_change rp (Arr g) (Some (Arr p))) =
        rp\<lparr>rmsProp_update :=
          Arr (map (\<lambda>i. rmsprop_average (decay rp) (elem (rmsProp_update rp) i) (g ! i))
                 [0..<length g])\<rparr>"
    using RMSprop_mismatch_fits [OF assms, of rp] by simp
  have adam: "0 \<le> t ad \<and> \<bar>decay1 ad\<bar> \<le> 1 \<and> \<bar>decay2 ad\<bar> \<le> 1 \<longrightarrow>
      fst (ADAM_update_change ad (Arr g) (Some (Arr p))) = Inl ValueError"
    using ADAM_mismatch_fits [OF assms, of ad] ADAM_mismatch_unfit [OF assms(2), of ad]
    by (cases "fits (s ad) (length g) \<and> fits (r ad) (length g)") auto
  have adam_state: "0 \<le> t ad \<and> \<bar>decay1 ad\<bar> \<le> 1 \<and> \<bar>decay2 ad\<bar> \<le> 1 \<and>
      fits (s ad) (length g) \<and> fits (r ad) (length g) \<longrightarrow>
      snd (ADAM_update_change ad (Arr g) (Some (Arr p))) =
        ad\<lparr>s := Arr (map (\<lambda>i. decay1 ad * elem (s ad) i + (1 - decay1 ad) * g ! i)
                       [0..<length g]),
            r := Arr (map (\<lambda>i. decay2 ad * elem (r ad) i + (1 - decay2 ad) * g ! i * g ! i)
                       [0..<length g])\<rparr>"
    using ADAM_mismatch_fits [OF assms, of ad] by simp
  from template plain0 plain momentum adagrad rms rms_state adam adam_state show ?thesis
    by (intro conjI)
qed

theorem broadcast_failure_on_mismatch_witness:
  "length [1, 2 :: real] \<noteq> length [1, 2, 3 :: real] \<and>
   PlainGD.lp (PlainGD_init (1/100) 1 0) = 0 \<and>
   PlainGD.lp (PlainGD_init (1/100) 1 2) \<in> {1, 2} \<and>
   MomentumGD.lp (MomentumGD_init (1/100) (1/2) 1 0) \<in> {0, 1, 2} \<and>
   Adagrad.lp (Adagrad_init (1/100) (1/2) 1 1) \<in> {0, 1, 2} \<and>
   fits (rmsProp_update (RMSprop_init (1/100) (9/10) 1)) (length [1, 2 :: real]) \<and>
   PlainGD_update_change (PlainGD_init (1/100) 1 0) (Arr [1, 2]) (Some (Arr [1, 2, 3]))
     = Inr (Arr [1/100, 2/100]) \<and>
   PlainGD_update_change (PlainGD_init (1/100) 1 2) (Arr [1, 2]) (Some (Arr [1, 2, 3]))
     = Inl ValueError \<and>
   MomentumGD_update_change (MomentumGD_init (1/100) (1/2) 1 0) (Arr [1, 2]) (Some (Arr [1, 2, 3]))
     = Inl ValueError \<and>
   fst (Adagrad_update_change (Adagrad_init (1/100) (1/2) 1 1) (Arr [1, 2]) (Some (Arr [1, 2, 3])))
     = Inl ValueError \<and>
   fst (RMSprop_update_change (RMSprop_init (1/100) (9/10) 1) (Arr [1, 2]) (Some (Arr [1, 2, 3])))
     = Inl ValueError \<and>
   rmsProp_update (snd (RMSprop_update_change (RMSprop_init (1/100) (9/10) 1) (Arr [1, 2])
                          (Some (Arr [1, 2, 3]))))
     = Arr [1/10, 4/10] \<and>
   fst (ADAM_update_change
          \<lparr>eta = 1/100, decay1 = 9/10, decay2 = 99/100, ADAM.lmbda = 1,
           s = Scalar 0, r = Scalar 0, t = 1\<rparr> (Arr [1, 2]) (Some (Arr [1, 2, 3])))
     = Inl ValueError \<and>
   s (snd (ADAM_update_change
          \<lparr>eta = 1/100, decay1 = 9/10, decay2 = 99/100, ADAM.lmbda = 1,
           s = Scalar 0, r = Scalar 0, t = 1\<rparr> (Arr [1, 2]) (Some (Arr [1, 2, 3]))))
     = Arr [1/10, 2/10]"
proof -
  have a: "length [1, 2 :: real] \<noteq> length [1, 2, 3 :: real]"
    and b: "length [1, 2 :: real] \<noteq> 1" and c: "length [1, 2, 3 :: real] \<noteq> 1"
    by simp_all
  show ?thesis
    using broadcast_failure_on_mismatch [OF a b c,
            of "GDTemplate_init (1/100)" "PlainGD_init (1/100) 1 0" "PlainGD_init (1/100) 1 2"
               "MomentumGD_init (1/100) (1/2) 1 0" "Adagrad_init (1/100) (1/2) 1 1"
               "RMSprop_init (1/100) (9/10) 1"
               "\<lparr>eta = 1/100, decay1 = 9/10, decay2 = 99/100, ADAM.lmbda = 1,
                 s = Scalar 0, r = Scalar 0, t = 1\<rparr>"]
    by (simp add: PlainGD_init_def MomentumGD_init_def Adagrad_init_def RMSprop_init_def
          rmsprop_average_def upt_rec)
qed

text \<open>
  The claim as stated fails: with shapes \<open>(2,)\<close> and \<open>(3,)\<close>, \<open>PlainGD\<close> with \<open>lp = 0\<close>
  returns a value, and \<open>RMSprop\<close> raises after its moving average has changed.
\<close>

theorem shape_mismatch_counterexample:
  "PlainGD_update_change (PlainGD_init (1/100) 0 0) (Arr [1, 2]) (Some (Arr [1, 2, 3]))
     = Inr (Arr [1/100, 2/100]) \<and>
   fst (RMSprop_update_change (RMSprop_init (1/100) (9/10) 0) (Arr [1, 2]) (Some (Arr [1, 2, 3])))
     = Inl ValueError \<and>
   rmsProp_update (RMSprop_init (1/100) (9/10) 0) = Scalar 0 \<and>
   rmsProp_update (snd (RMSprop_update_change (RMSprop_init (1/100) (9/10) 0) (Arr [1, 2])
                          (Some (Arr [1, 2, 3]))))
     = Arr [1/10, 4/10]"
  by (simp add: PlainGD_init_def PlainGD_update_change_def RMSprop_init_def
        RMSprop_update_change_def)

end
